theory Spec2Isabelle
  imports Complex_Main
begin

section \<open>Go library functions used by the handlers\<close>

text \<open>
  Go strings are byte sequences; a \<open>string\<close> here is the list of those bytes, so a Korean
  message of the source is the list of its UTF-8 bytes.
\<close>

text \<open>
  \<open>strings.Split(s, sep)\<close> for the one-byte separators the source uses (\<open>"@"\<close>, \<open>":"\<close>,
  \<open>","\<close>): the pieces between the separators, one piece more than there are separators, so
  the empty string gives one empty piece.
\<close>

fun Split :: "string \<Rightarrow> char \<Rightarrow> string list" where
  "Split [] sep = [[]]"
| "Split (c # cs) sep =
     (if c = sep then [] # Split cs sep
      else (case Split cs sep of
              [] \<Rightarrow> [[c]]
            | p # ps \<Rightarrow> (c # p) # ps))"

text \<open>\<open>strings.Join(elems, sep)\<close>.\<close>

fun Join :: "string list \<Rightarrow> string \<Rightarrow> string" where
  "Join [] sep = []"
| "Join [x] sep = x"
| "Join (x # y # ys) sep = x @ sep @ Join (y # ys) sep"

text \<open>\<open>strings.HasPrefix(s, prefix)\<close>.\<close>

definition HasPrefix :: "string \<Rightarrow> string \<Rightarrow> bool" where
  "HasPrefix s p = (take (length p) s = p)"

text \<open>\<open>strings.Contains(s, substr)\<close>: \<open>substr\<close> starts at some position of \<open>s\<close>.\<close>

fun Contains :: "string \<Rightarrow> string \<Rightarrow> bool" where
  "Contains [] sub = (sub = [])"
| "Contains (c # cs) sub = (HasPrefix (c # cs) sub \<or> Contains cs sub)"

section \<open>utils: masking the connection string\<close>



section \<open>utils: the job queue\<close>

text \<open>
  The values the program stores behind \<open>interface{}\<close>: what \<open>encoding/json\<close> decodes into
  an \<open>interface{}\<close> (nil, bool, float64, string, array, object), and the Go values the
  handlers pass on themselves (an \<open>int\<close>, a \<open>string\<close>, a \<open>time.Time\<close>). A float64 that JSON
  decoding yields is finite, hence a rational number; \<open>VFloat64\<close> carries that number.
\<close>

datatype iface =
    VNil
  | VBool bool
  | VFloat64 rat
  | VString string
  | VArray "iface list"
  | VObject "(string \<times> iface) list"
  | VInt int
  | VTime nat

record Job =
  Name :: string
  Data :: "(string \<times> iface) list"
  Priority :: int

text \<open>
  \<open>jobQueue = make(chan Job, 100)\<close>: the buffer of the channel, oldest job first, and the
  lines the queue has logged.
\<close>

record queue_state =
  jobQueue :: "Job list"
  log_lines :: "string list"

definition jobQueue_cap :: nat where
  "jobQueue_cap = 100"

definition queue_init :: queue_state where
  "queue_init = \<lparr>jobQueue = [], log_lines = []\<rparr>"

text \<open>
  The send case of a \<open>select\<close> with a \<open>default\<close>: the send is taken when the buffer has
  room, and \<open>None\<close> says that it would block.
\<close>

definition try_send :: "Job \<Rightarrow> Job list \<Rightarrow> Job list option" where
  "try_send job buf = (if length buf < jobQueue_cap then Some (buf @ [job]) else None)"

text \<open>\<open>EnqueueJob\<close> (queue.go, lines 38 to 45).\<close>

definition EnqueueJob :: "Job \<Rightarrow> queue_state \<Rightarrow> queue_state" where
  "EnqueueJob job q =
     (case try_send job (jobQueue q) of
        Some buf \<Rightarrow> q\<lparr>jobQueue := buf, log_lines := log_lines q @ [''Job enqueued: '' @ Name job]\<rparr>
      | None \<Rightarrow> q\<lparr>log_lines := log_lines q @ [''Job queue full, dropping job: '' @ Name job]\<rparr>)"

text \<open>
  \<open>processJob\<close> (lines 69 to 88): the job's work is a log line; the \<open>select\<close> then sees
  either the \<open>done\<close> signal or the deadline, which the scheduler decides (\<open>timed_out\<close>).
\<close>

definition processJob :: "bool \<Rightarrow> Job \<Rightarrow> string list \<Rightarrow> string list" where
  "processJob timed_out job lg =
     lg @ [''Processing job: '' @ Name job]
        @ [(if timed_out then ''Job timed out: '' else ''Job processed: '') @ Name job]"

text \<open>
  One turn of a worker's loop \<open>for job := range jobQueue\<close>: it takes the oldest job and
  processes it; on an empty queue the worker waits and the state stays.
\<close>

definition worker_step :: "bool \<Rightarrow> queue_state \<Rightarrow> queue_state" where
  "worker_step timed_out q =
     (case jobQueue q of
        [] \<Rightarrow> q
      | job # rest \<Rightarrow> q\<lparr>jobQueue := rest, log_lines := processJob timed_out job (log_lines q)\<rparr>)"

text \<open>What happens to the queue over time: producers enqueue, workers take.\<close>

datatype queue_event = Enqueue Job | Work bool

fun queue_step :: "queue_state \<Rightarrow> queue_event \<Rightarrow> queue_state" where
  "queue_step q (Enqueue job) = EnqueueJob job q"
| "queue_step q (Work timed_out) = worker_step timed_out q"

definition queue_run :: "queue_event list \<Rightarrow> queue_state \<Rightarrow> queue_state" where
  "queue_run evs q = foldl queue_step q evs"

section \<open>Numbers and request data\<close>

text \<open>\<open>strconv.Itoa\<close> (and \<open>%d\<close> of \<open>fmt.Sprintf\<close>): the decimal digits, a \<open>-\<close> before a negative number.\<close>

definition digit_char :: "nat \<Rightarrow> char" where
  "digit_char d = ''0123456789'' ! d"

fun digits :: "nat \<Rightarrow> string" where
  "digits n = (if n < 10 then [digit_char n] else digits (n div 10) @ [digit_char (n mod 10)])"

declare digits.simps [simp del]

definition Itoa :: "int \<Rightarrow> string" where
  "Itoa i = (if i < 0 then CHR ''-'' # digits (nat (- i)) else digits (nat i))"

text \<open>
  \<open>strconv.Atoi\<close> on a platform whose \<open>int\<close> has 64 bits: an optional sign, then one or more
  decimal digits and nothing else; a value outside the \<open>int\<close> range is an error as well.
  \<open>Inl ()\<close> is the error (the handlers only test \<open>err != nil\<close>).
\<close>

definition is_digit :: "char \<Rightarrow> bool" where
  "is_digit c = (c \<in> set ''0123456789'')"

definition digits_val :: "string \<Rightarrow> nat" where
  "digits_val ds = foldl (\<lambda>acc c. 10 * acc + (of_char c - 48)) 0 ds"

definition Atoi :: "string \<Rightarrow> unit + int" where
  "Atoi s =
     (let (neg, ds) =
            (case s of
               [] \<Rightarrow> (False, [])
             | c # cs \<Rightarrow>
                 if c = CHR ''-'' then (True, cs)
                 else if c = CHR ''+'' then (False, cs)
                 else (False, s))
      in if ds = [] \<or> \<not> list_all is_digit ds then Inl ()
         else (let v = (if neg then - int (digits_val ds) else int (digits_val ds))
               in if v < - (2 ^ 63) \<or> 2 ^ 63 \<le> v then Inl () else Inr v))"

text \<open>
  The conversion \<open>int(v)\<close> of a float64: the fraction is discarded (truncation towards
  zero). The Go specification leaves the result to the implementation when the truncated
  value is outside the \<open>int\<close> range; \<open>oor\<close> is what the platform yields then.
\<close>

definition float64_to_int :: "(rat \<Rightarrow> int) \<Rightarrow> rat \<Rightarrow> int" where
  "float64_to_int oor v =
     (let t = (if 0 \<le> v then \<lfloor>v\<rfloor> else \<lceil>v\<rceil>)
      in if - (2 ^ 63) \<le> t \<and> t < 2 ^ 63 then t else oor v)"

text \<open>
  \<open>http.Header\<close> and \<open>url.Values\<close> map a key to its values; \<open>Get\<close> is the first value of the
  key, and the empty string when the key has none.
\<close>

definition Get :: "(string \<rightharpoonup> string list) \<Rightarrow> string \<Rightarrow> string" where
  "Get m key = (case m key of None \<Rightarrow> [] | Some [] \<Rightarrow> [] | Some (v # _) \<Rightarrow> v)"

text \<open>What the list handlers read of a request: its headers and its URL query.\<close>

record request =
  Header :: "string \<rightharpoonup> string list"
  URL_Query :: "string \<rightharpoonup> string list"

section \<open>tables: the records\<close>

text \<open>
  \<open>Seat\<close> and \<open>Room\<close> are two Go structs of twenty fields each; thirteen fields have the
  same name and type in both, and are the fields of \<open>placement\<close> here. A Go \<open>int\<close> field
  is an \<open>int\<close>: the handlers never calculate with the fields.
\<close>

record placement =
  AutoIncrement :: int
  CompanyCode :: int
  TitleBackgroundColor :: string
  TitleTextColor :: string
  Gender :: int
  Waiting :: int
  Release :: int
  HideTitle :: int
  TransparentBackground :: int
  HideBorder :: int
  KioskDisabled :: int
  PowerControl :: int
  BreakerNumber :: int

record Seat = placement +
  SeatCode :: int
  SeatTitle :: string
  SeatBackgroundColor :: string
  SeatTop :: int
  SeatLeft :: int
  SeatWidth :: int
  SeatHeight :: int

record Room = placement +
  RoomCode :: int
  RoomTitle :: string
  RoomBackgroundColor :: string
  RoomTop :: int
  RoomLeft :: int
  RoomWidth :: int
  RoomHeight :: int

section \<open>tables: what a handler runs in\<close>

text \<open>
  The database is outside the program. \<open>'db\<close> is its state, and the record below is what
  the handlers call: \<open>ExecContext\<close> runs a statement with its arguments and gives the text
  of the error, if any, and the new state (a deadline that passes is one of the errors);
  \<open>QueryRowSeat\<close> and \<open>QueryRowRoom\<close> are \<open>QueryRowContext\<close> followed by \<open>Scan\<close> into
  the struct, with \<open>Inl\<close> the text of the error. \<open>Now\<close> is \<open>time.Now()\<close>, and
  \<open>int_out_of_range\<close> the platform's \<open>int(v)\<close> for a float64 outside the \<open>int\<close> range.
\<close>

record 'db runtime =
  ExecContext :: "string \<Rightarrow> iface list \<Rightarrow> 'db \<Rightarrow> string option \<times> 'db"
  QueryRowSeat :: "string \<Rightarrow> iface list \<Rightarrow> 'db \<Rightarrow> string + Seat"
  QueryRowRoom :: "string \<Rightarrow> iface list \<Rightarrow> 'db \<Rightarrow> string + Room"
  Now :: nat
  int_out_of_range :: "rat \<Rightarrow> int"

text \<open>
  The state the handlers share: the database, the function pointer \<open>EnqueueJobHandler\<close>
  (\<open>None\<close> is \<open>nil\<close>) and the job queue.
\<close>

record 'db world =
  DB :: 'db
  EnqueueJobHandler :: "(Job \<Rightarrow> queue_state \<Rightarrow> queue_state) option"
  Queue :: queue_state

text \<open>
  A response: the status code and the body. \<open>Text\<close> is the message given to
  \<open>http.Error\<close>, \<open>JsonSeat\<close> and \<open>JsonRoom\<close> the struct given to the JSON encoder.
\<close>

datatype resp_body = NoBody | Text string | JsonSeat Seat | JsonRoom Room

record response =
  status :: nat
  body :: resp_body

section \<open>tables: field selection and the list queries\<close>

text \<open>
  The field selection of \<open>GetSeats\<close> (lines 74 to 93) and \<open>GetRooms\<close> (lines 71 to 90), the
  same code in both. \<open>strings.TrimSpace\<close> is the parameter \<open>TrimSpace\<close>. The loop appends
  every requested name that is a key of \<open>allowedSet\<close>; \<open>selected\<close> is the slice
  \<open>fields\<close> of the source.
\<close>

fun fields_loop :: "(string \<Rightarrow> string) \<Rightarrow> string list \<Rightarrow> string list \<Rightarrow> string list \<Rightarrow> string list" where
  "fields_loop TrimSpace allowedFields [] selected = selected"
| "fields_loop TrimSpace allowedFields (f # requested) selected =
     (let f' = TrimSpace f
      in if f' \<in> set allowedFields
         then fields_loop TrimSpace allowedFields requested (selected @ [f'])
         else fields_loop TrimSpace allowedFields requested selected)"

definition select_fields :: "(string \<Rightarrow> string) \<Rightarrow> string list \<Rightarrow> string \<Rightarrow> string list" where
  "select_fields TrimSpace allowedFields fieldsHeader =
     (if fieldsHeader \<noteq> [] then
        (let requested = Split fieldsHeader (CHR '','');
             selected = fields_loop TrimSpace allowedFields requested []
         in if length selected = 0 then allowedFields else selected)
      else allowedFields)"

definition seat_allowedFields :: "string list" where
  "seat_allowedFields =
     [''auto_increment'', ''company_code'', ''seat_code'', ''seat_title'',
      ''title_background_color'', ''title_text_color'', ''seat_background_color'',
      ''seat_top'', ''seat_left'', ''seat_width'', ''seat_height'',
      ''gender'', ''waiting'', ''release'', ''hide_title'',
      ''transparent_background'', ''hide_border'', ''kiosk_disabled'',
      ''power_control'', ''breaker_number'']"

definition room_allowedFields :: "string list" where
  "room_allowedFields =
     [''auto_increment'', ''company_code'', ''room_code'', ''room_title'',
      ''title_background_color'', ''title_text_color'', ''room_background_color'',
      ''room_top'', ''room_left'', ''room_width'', ''room_height'',
      ''gender'', ''waiting'', ''release'', ''hide_title'',
      ''transparent_background'', ''hide_border'', ''kiosk_disabled'',
      ''power_control'', ''breaker_number'']"

definition GetSeats_fields :: "(string \<Rightarrow> string) \<Rightarrow> request \<Rightarrow> string list" where
  "GetSeats_fields TrimSpace r = select_fields TrimSpace seat_allowedFields (Get (Header r) ''X-Fields'')"

definition GetRooms_fields :: "(string \<Rightarrow> string) \<Rightarrow> request \<Rightarrow> string list" where
  "GetRooms_fields TrimSpace r = select_fields TrimSpace room_allowedFields (Get (Header r) ''X-Fields'')"

text \<open>
  The map \<open>filterParams\<close> of \<open>GetSeats\<close> (lines 101 to 109), query parameter and column.
  Go visits the entries of a map in an order it chooses at run time.
\<close>

definition seat_filterParams :: "(string \<times> string) list" where
  "seat_filterParams =
     [(''company_code'', ''company_code''),
      (''seat_code'', ''seat_code''),
      (''gender'', ''gender''),
      (''waiting'', ''waiting''),
      (''release'', ''release''),
      (''kiosk_disabled'', ''kiosk_disabled''),
      (''power_control'', ''power_control'')]"

text \<open>
  The loop over \<open>filterParams\<close> (lines 112 to 118), over the entries in the order
  of the visit; the state is \<open>filters\<close>, \<open>args\<close> and \<open>paramIdx\<close>.
\<close>

fun filter_loop ::
  "(string \<Rightarrow> string) \<Rightarrow> (string \<times> string) list \<Rightarrow> string list \<times> iface list \<times> int
     \<Rightarrow> string list \<times> iface list \<times> int" where
  "filter_loop query_get [] st = st"
| "filter_loop query_get ((param, dbField) # rest) (filters, args, paramIdx) =
     (let v = query_get param
      in if v \<noteq> []
         then filter_loop query_get rest
                (filters @ [dbField @ '' = $'' @ Itoa paramIdx], args @ [VString v], paramIdx + 1)
         else filter_loop query_get rest (filters, args, paramIdx))"

text \<open>
  The sort option of \<open>GetSeats\<close> (lines 134 to 154): what is appended to the query.
  \<open>sortParam\<close> is the query parameter \<open>sort\<close>, \<open>sortKey\<close> the variable \<open>sort\<close> after the
  sign is cut off.
\<close>

definition seat_allowedSortFields :: "string list" where
  "seat_allowedSortFields = [''seat_code'', ''seat_title'', ''auto_increment'']"

definition seat_order_clause :: "string \<Rightarrow> string" where
  "seat_order_clause sortParam =
     (if sortParam \<noteq> [] then
        (let (sortKey, direction) =
               (if HasPrefix sortParam ''-'' then (drop 1 sortParam, ''DESC'') else (sortParam, ''ASC''))
         in if sortKey \<in> set seat_allowedSortFields
            then '' ORDER BY '' @ sortKey @ '' '' @ direction
            else [])
      else '' ORDER BY seat_code ASC'')"

text \<open>
  \<open>GetSeats\<close> from the field selection to the WHERE clause (lines 64 to 131): the query
  text so far and the arguments. \<open>visit\<close> is the order in which the run visits
  \<open>filterParams\<close>.
\<close>

definition GetSeats_where ::
  "(string \<Rightarrow> string) \<Rightarrow> (string \<times> string) list \<Rightarrow> request \<Rightarrow> string \<times> iface list" where
  "GetSeats_where TrimSpace visit r =
     (let selected = GetSeats_fields TrimSpace r;
          (filters, args, paramIdx) = filter_loop (Get (URL_Query r)) visit ([], [], 1);
          search = Get (URL_Query r) ''search'';
          (filters, args) =
             (if search \<noteq> []
              then (filters @ [''seat_title LIKE $'' @ Itoa paramIdx],
                    args @ [VString (''%'' @ search @ ''%'')])
              else (filters, args));
          query = ''SELECT '' @ Join selected '', '' @ '' FROM seat_table'';
          query = (if length filters > 0 then query @ '' WHERE '' @ Join filters '' AND '' else query)
      in (query, args))"

text \<open>
  \<open>GetSeats\<close> up to the query it runs (lines 64 to 154): the sort option is appended to
  the text; the rest of the handler runs the query and encodes the rows.
\<close>

definition GetSeats_query ::
  "(string \<Rightarrow> string) \<Rightarrow> (string \<times> string) list \<Rightarrow> request \<Rightarrow> string \<times> iface list" where
  "GetSeats_query TrimSpace visit r =
     (let (query, args) = GetSeats_where TrimSpace visit r
      in (query @ seat_order_clause (Get (URL_Query r) ''sort''), args))"

text \<open>\<open>GetRooms\<close> up to the query it runs (lines 64 to 93): no filter, no sort, no argument.\<close>

definition GetRooms_query :: "(string \<Rightarrow> string) \<Rightarrow> request \<Rightarrow> string \<times> iface list" where
  "GetRooms_query TrimSpace r =
     (''SELECT '' @ Join (GetRooms_fields TrimSpace r) '', '' @ '' FROM room_table'', [])"

section \<open>tables: create\<close>

text \<open>The messages of the handlers are Korean text; each is the list of its UTF-8 bytes.\<close>

definition msg_bad_request_data :: string where
  "msg_bad_request_data =
     [CHR 0xEC, CHR 0x9E, CHR 0x98, CHR 0xEB, CHR 0xAA, CHR 0xBB, CHR 0xEB, CHR 0x90, CHR 0x9C] @ '' ''
     @ [CHR 0xEC, CHR 0x9A, CHR 0x94, CHR 0xEC, CHR 0xB2, CHR 0xAD] @ '' ''
     @ [CHR 0xEB, CHR 0x8D, CHR 0xB0, CHR 0xEC, CHR 0x9D, CHR 0xB4, CHR 0xED, CHR 0x84, CHR 0xB0]"

text \<open>"... seat code already exists" and "... room code already exists".\<close>

definition msg_exists :: "string \<Rightarrow> string" where
  "msg_exists what =
     [CHR 0xEC, CHR 0x9D, CHR 0xB4, CHR 0xEB, CHR 0xAF, CHR 0xB8] @ '' ''
     @ [CHR 0xEC, CHR 0xA1, CHR 0xB4, CHR 0xEC, CHR 0x9E, CHR 0xAC, CHR 0xED, CHR 0x95, CHR 0x98,
        CHR 0xEB, CHR 0x8A, CHR 0x94] @ '' '' @ what @ '' code''
     @ [CHR 0xEC, CHR 0x9E, CHR 0x85, CHR 0xEB, CHR 0x8B, CHR 0x88, CHR 0xEB, CHR 0x8B, CHR 0xA4]"

definition msg_seat_exists :: string where
  "msg_seat_exists = msg_exists ''seat''"

definition msg_room_exists :: string where
  "msg_room_exists = msg_exists ''room''"

text \<open>"wrong seat_code" and "wrong room_code".\<close>

definition msg_bad_code :: "string \<Rightarrow> string" where
  "msg_bad_code key =
     [CHR 0xEC, CHR 0x9E, CHR 0x98, CHR 0xEB, CHR 0xAA, CHR 0xBB, CHR 0xEB, CHR 0x90, CHR 0x9C] @ '' '' @ key"

text \<open>"the seat_code of the URL and of the body differ."\<close>

definition msg_code_differs :: "string \<Rightarrow> string" where
  "msg_code_differs key =
     ''URL'' @ [CHR 0xEA, CHR 0xB3, CHR 0xBC] @ '' body'' @ [CHR 0xEC, CHR 0x9D, CHR 0x98] @ '' '' @ key
     @ [CHR 0xEA, CHR 0xB0, CHR 0x80] @ '' ''
     @ [CHR 0xEB, CHR 0x8B, CHR 0xA4, CHR 0xEB, CHR 0xA6, CHR 0x85, CHR 0xEB, CHR 0x8B, CHR 0x88,
        CHR 0xEB, CHR 0x8B, CHR 0xA4] @ ''.''"

text \<open>"wrong seat_code value".\<close>

definition msg_bad_code_value :: "string \<Rightarrow> string" where
  "msg_bad_code_value key = msg_bad_code key @ '' '' @ [CHR 0xEA, CHR 0xB0, CHR 0x92]"

text \<open>"there is no field to update."\<close>

definition msg_no_fields :: string where
  "msg_no_fields =
     [CHR 0xEC, CHR 0x97, CHR 0x85, CHR 0xEB, CHR 0x8D, CHR 0xB0, CHR 0xEC, CHR 0x9D, CHR 0xB4,
      CHR 0xED, CHR 0x8A, CHR 0xB8, CHR 0xED, CHR 0x95, CHR 0xA0] @ '' ''
     @ [CHR 0xED, CHR 0x95, CHR 0x84, CHR 0xEB, CHR 0x93, CHR 0x9C, CHR 0xEA, CHR 0xB0, CHR 0x80] @ '' ''
     @ [CHR 0xEC, CHR 0x97, CHR 0x86, CHR 0xEC, CHR 0x8A, CHR 0xB5, CHR 0xEB, CHR 0x8B, CHR 0x88,
        CHR 0xEB, CHR 0x8B, CHR 0xA4] @ ''.''"

text \<open>"there is no valid field to update."\<close>

definition msg_no_valid_fields :: string where
  "msg_no_valid_fields =
     [CHR 0xEC, CHR 0x9C, CHR 0xA0, CHR 0xED, CHR 0x9A, CHR 0xA8, CHR 0xED, CHR 0x95, CHR 0x9C] @ '' ''
     @ [CHR 0xEC, CHR 0x97, CHR 0x85, CHR 0xEB, CHR 0x8D, CHR 0xB0, CHR 0xEC, CHR 0x9D, CHR 0xB4,
        CHR 0xED, CHR 0x8A, CHR 0xB8] @ '' ''
     @ [CHR 0xED, CHR 0x95, CHR 0x84, CHR 0xEB, CHR 0x93, CHR 0x9C, CHR 0xEA, CHR 0xB0, CHR 0x80] @ '' ''
     @ [CHR 0xEC, CHR 0x97, CHR 0x86, CHR 0xEC, CHR 0x8A, CHR 0xB5, CHR 0xEB, CHR 0x8B, CHR 0x88,
        CHR 0xEB, CHR 0x8B, CHR 0xA4] @ ''.''"

text \<open>The defaults of \<open>CreateSeat\<close> (lines 272 to 287), one \<open>if\<close> after the other.\<close>

definition seat_defaults :: "Seat \<Rightarrow> Seat" where
  "seat_defaults seat0 =
     (let seat = (if SeatWidth seat0 = 0 then seat0\<lparr>SeatWidth := 100\<rparr> else seat0);
          seat = (if SeatHeight seat = 0 then seat\<lparr>SeatHeight := 100\<rparr> else seat);
          seat = (if SeatBackgroundColor seat = [] then seat\<lparr>SeatBackgroundColor := ''#FFFFFF''\<rparr> else seat);
          seat = (if TitleBackgroundColor seat = [] then seat\<lparr>TitleBackgroundColor := ''#000000''\<rparr> else seat);
          seat = (if TitleTextColor seat = [] then seat\<lparr>TitleTextColor := ''#FFFFFF''\<rparr> else seat)
      in seat)"

text \<open>The defaults of \<open>CreateRoom\<close> (lines 186 to 201).\<close>

definition room_defaults :: "Room \<Rightarrow> Room" where
  "room_defaults room0 =
     (let room = (if RoomWidth room0 = 0 then room0\<lparr>RoomWidth := 100\<rparr> else room0);
          room = (if RoomHeight room = 0 then room\<lparr>RoomHeight := 100\<rparr> else room);
          room = (if RoomBackgroundColor room = [] then room\<lparr>RoomBackgroundColor := ''#FFFFFF''\<rparr> else room);
          room = (if TitleBackgroundColor room = [] then room\<lparr>TitleBackgroundColor := ''#000000''\<rparr> else room);
          room = (if TitleTextColor room = [] then room\<lparr>TitleTextColor := ''#FFFFFF''\<rparr> else room)
      in room)"

text \<open>The INSERT statements, as the raw string literals of the source (newlines, blanks, tabs).\<close>

definition seat_insert_query :: string where
  "seat_insert_query =
     [CHR 0x0A]
     @ ''        INSERT INTO seat_table ''
     @ [CHR 0x0A]
     @ ''        (company_code, seat_code, seat_title, ''
     @ [CHR 0x0A]
     @ ''         title_background_color, title_text_color, seat_background_color,''
     @ [CHR 0x0A]
     @ ''         seat_top, seat_left, seat_width, seat_height,''
     @ [CHR 0x0A]
     @ ''         gender, waiting, release, hide_title,''
     @ [CHR 0x0A]
     @ ''         transparent_background, hide_border, kiosk_disabled,''
     @ [CHR 0x0A]
     @ ''         power_control, breaker_number)''
     @ [CHR 0x0A]
     @ ''        VALUES ($1, $2, $3, $4, $5, $6, $7, $8, $9, $10, $11,''
     @ [CHR 0x0A]
     @ ''                $12, $13, $14, $15, $16, $17, $18, $19)''
     @ [CHR 0x0A]
     @ ''    ''"

definition room_insert_query :: string where
  "room_insert_query =
     [CHR 0x0A, CHR 0x09, CHR 0x09]
     @ ''INSERT INTO room_table ''
     @ [CHR 0x0A, CHR 0x09, CHR 0x09]
     @ ''(company_code, room_code, room_title, ''
     @ [CHR 0x0A, CHR 0x09, CHR 0x09]
     @ '' title_background_color, title_text_color, room_background_color,''
     @ [CHR 0x0A, CHR 0x09, CHR 0x09]
     @ '' room_top, room_left, room_width, room_height,''
     @ [CHR 0x0A, CHR 0x09, CHR 0x09]
     @ '' gender, waiting, release, hide_title,''
     @ [CHR 0x0A, CHR 0x09, CHR 0x09]
     @ '' transparent_background, hide_border, kiosk_disabled,''
     @ [CHR 0x0A, CHR 0x09, CHR 0x09]
     @ '' power_control, breaker_number)''
     @ [CHR 0x0A, CHR 0x09, CHR 0x09]
     @ ''VALUES ($1, $2, $3, $4, $5, $6, $7, $8, $9, $10, $11,''
     @ [CHR 0x0A, CHR 0x09, CHR 0x09]
     @ ''        $12, $13, $14, $15, $16, $17, $18, $19)''
     @ [CHR 0x0A, CHR 0x09]"

text \<open>The nineteen arguments of the INSERT, in the order of the call (lines 304 to 310).\<close>

definition seat_insert_args :: "Seat \<Rightarrow> iface list" where
  "seat_insert_args seat =
     [VInt (CompanyCode seat), VInt (SeatCode seat), VString (SeatTitle seat),
      VString (TitleBackgroundColor seat), VString (TitleTextColor seat), VString (SeatBackgroundColor seat),
      VInt (SeatTop seat), VInt (SeatLeft seat), VInt (SeatWidth seat), VInt (SeatHeight seat),
      VInt (Gender seat), VInt (Waiting seat), VInt (Release seat), VInt (HideTitle seat),
      VInt (TransparentBackground seat), VInt (HideBorder seat), VInt (KioskDisabled seat),
      VInt (PowerControl seat), VInt (BreakerNumber seat)]"

definition room_insert_args :: "Room \<Rightarrow> iface list" where
  "room_insert_args room =
     [VInt (CompanyCode room), VInt (RoomCode room), VString (RoomTitle room),
      VString (TitleBackgroundColor room), VString (TitleTextColor room), VString (RoomBackgroundColor room),
      VInt (RoomTop room), VInt (RoomLeft room), VInt (RoomWidth room), VInt (RoomHeight room),
      VInt (Gender room), VInt (Waiting room), VInt (Release room), VInt (HideTitle room),
      VInt (TransparentBackground room), VInt (HideBorder room), VInt (KioskDisabled room),
      VInt (PowerControl room), VInt (BreakerNumber room)]"

text \<open>
  \<open>CreateSeat\<close> (lines 261 to 328). \<open>decoded\<close> is what decoding the body into a \<open>Seat\<close>
  gives: \<open>Inl ()\<close> for an error, else the struct, where a field the body does not set has
  the zero value of its type. The log lines of the handler are left out.
\<close>

definition CreateSeat :: "'db runtime \<Rightarrow> unit + Seat \<Rightarrow> 'db world \<Rightarrow> response \<times> 'db world" where
  "CreateSeat rt decoded w =
     (case decoded of
        Inl _ \<Rightarrow> (\<lparr>status = 400, body = Text msg_bad_request_data\<rparr>, w)
      | Inr seat0 \<Rightarrow>
          (let seat = seat_defaults seat0;
               (err, db') = ExecContext rt seat_insert_query (seat_insert_args seat) (DB w);
               w' = w\<lparr>DB := db'\<rparr>
           in case err of
                Some e \<Rightarrow>
                  if Contains e ''duplicate key''
                  then (\<lparr>status = 400, body = Text msg_seat_exists\<rparr>, w')
                  else (\<lparr>status = 500, body = Text e\<rparr>, w')
              | None \<Rightarrow> (\<lparr>status = 201, body = JsonSeat seat\<rparr>, w')))"

text \<open>\<open>CreateRoom\<close> (room.go, lines 175 to 242).\<close>

definition CreateRoom :: "'db runtime \<Rightarrow> unit + Room \<Rightarrow> 'db world \<Rightarrow> response \<times> 'db world" where
  "CreateRoom rt decoded w =
     (case decoded of
        Inl _ \<Rightarrow> (\<lparr>status = 400, body = Text msg_bad_request_data\<rparr>, w)
      | Inr room0 \<Rightarrow>
          (let room = room_defaults room0;
               (err, db') = ExecContext rt room_insert_query (room_insert_args room) (DB w);
               w' = w\<lparr>DB := db'\<rparr>
           in case err of
                Some e \<Rightarrow>
                  if Contains e ''duplicate key''
                  then (\<lparr>status = 400, body = Text msg_room_exists\<rparr>, w')
                  else (\<lparr>status = 500, body = Text e\<rparr>, w')
              | None \<Rightarrow> (\<lparr>status = 201, body = JsonRoom room\<rparr>, w')))"

section \<open>tables: update and delete\<close>

text \<open>
  The body of an update is decoded into a \<open>map[string]interface{}\<close>. The map is the list of
  its entries, in the order in which the \<open>range\<close> loop of the run visits them (Go chooses
  that order); the keys of a map are distinct.
\<close>

type_synonym update_data = "(string \<times> iface) list"

text \<open>
  The check of the business key (\<open>UpdateSeat\<close> lines 350 to 362, \<open>UpdateRoom\<close> lines 264 to
  276), the same code for \<open>"seat_code"\<close> and \<open>"room_code"\<close>: \<open>Inl\<close> is the response of an
  early return, \<open>Inr\<close> the map after \<open>delete\<close>.
\<close>

definition check_body_key ::
  "(rat \<Rightarrow> int) \<Rightarrow> string \<Rightarrow> int \<Rightarrow> update_data \<Rightarrow> response + update_data" where
  "check_body_key oor key code updateData =
     (case map_of updateData key of
        None \<Rightarrow> Inr updateData
      | Some (VFloat64 v) \<Rightarrow>
          if float64_to_int oor v \<noteq> code
          then Inl \<lparr>status = 400, body = Text (msg_code_differs key)\<rparr>
          else Inr (filter (\<lambda>(k, _). k \<noteq> key) updateData)
      | Some _ \<Rightarrow> Inl \<lparr>status = 400, body = Text (msg_bad_code_value key)\<rparr>)"

definition seat_update_allowed :: "string list" where
  "seat_update_allowed =
     [''company_code'', ''seat_title'', ''seat_background_color'', ''seat_top'', ''seat_left'',
      ''seat_width'', ''seat_height'', ''title_background_color'', ''title_text_color'',
      ''gender'', ''waiting'', ''release'', ''hide_title'', ''transparent_background'',
      ''hide_border'', ''kiosk_disabled'', ''power_control'', ''breaker_number'']"

definition room_update_allowed :: "string list" where
  "room_update_allowed =
     [''company_code'', ''room_title'', ''room_background_color'', ''room_top'', ''room_left'',
      ''room_width'', ''room_height'', ''title_background_color'', ''title_text_color'',
      ''gender'', ''waiting'', ''release'', ''hide_title'', ''transparent_background'',
      ''hide_border'', ''kiosk_disabled'', ''power_control'', ''breaker_number'']"

text \<open>
  The loop over \<open>updateData\<close> (\<open>UpdateSeat\<close> lines 391 to 398, \<open>UpdateRoom\<close> lines 305 to
  312); the state is \<open>updates\<close>, \<open>args\<close> and \<open>idx\<close>.
\<close>

fun update_loop ::
  "string list \<Rightarrow> update_data \<Rightarrow> string list \<times> iface list \<times> int \<Rightarrow> string list \<times> iface list \<times> int" where
  "update_loop allowed [] st = st"
| "update_loop allowed ((key, v) # rest) (updates, args, idx) =
     (if key \<notin> set allowed then update_loop allowed rest (updates, args, idx)
      else update_loop allowed rest (updates @ [key @ '' = $'' @ Itoa idx], args @ [v], idx + 1))"

text \<open>The UPDATE statement and its arguments (\<open>UpdateSeat\<close> lines 404 and 405).\<close>

definition UpdateSeat_query :: "int \<Rightarrow> string list \<times> iface list \<times> int \<Rightarrow> string \<times> iface list" where
  "UpdateSeat_query seatCode st =
     (case st of (updates, args, idx) \<Rightarrow>
        (''UPDATE seat_table SET '' @ Join updates '', '' @ '' WHERE seat_code = $'' @ Itoa idx,
         args @ [VInt seatCode]))"

definition UpdateRoom_query :: "int \<Rightarrow> string list \<times> iface list \<times> int \<Rightarrow> string \<times> iface list" where
  "UpdateRoom_query roomCode st =
     (case st of (updates, args, idx) \<Rightarrow>
        (''UPDATE room_table SET '' @ Join updates '', '' @ '' WHERE room_code = $'' @ Itoa idx,
         args @ [VInt roomCode]))"

text \<open>The SELECT of one row, as the raw string literals of the source.\<close>

definition seat_select_query :: string where
  "seat_select_query =
     [CHR 0x0A]
     @ ''        SELECT auto_increment, company_code, seat_code, seat_title,''
     @ [CHR 0x0A]
     @ ''               title_background_color, title_text_color, seat_background_color,''
     @ [CHR 0x0A]
     @ ''               seat_top, seat_left, seat_width, seat_height,''
     @ [CHR 0x0A]
     @ ''               gender, waiting, release, hide_title,''
     @ [CHR 0x0A]
     @ ''               transparent_background, hide_border, kiosk_disabled,''
     @ [CHR 0x0A]
     @ ''               power_control, breaker_number''
     @ [CHR 0x0A]
     @ ''        FROM seat_table WHERE seat_code = $1''"

definition room_select_query :: string where
  "room_select_query =
     [CHR 0x0A, CHR 0x09, CHR 0x09]
     @ ''SELECT auto_increment, company_code, room_code, room_title,''
     @ [CHR 0x0A, CHR 0x09, CHR 0x09]
     @ ''       title_background_color, title_text_color, room_background_color,''
     @ [CHR 0x0A, CHR 0x09, CHR 0x09]
     @ ''       room_top, room_left, room_width, room_height,''
     @ [CHR 0x0A, CHR 0x09, CHR 0x09]
     @ ''       gender, waiting, release, hide_title,''
     @ [CHR 0x0A, CHR 0x09, CHR 0x09]
     @ ''       transparent_background, hide_border, kiosk_disabled,''
     @ [CHR 0x0A, CHR 0x09, CHR 0x09]
     @ ''       power_control, breaker_number''
     @ [CHR 0x0A, CHR 0x09, CHR 0x09]
     @ ''FROM room_table WHERE room_code = $1''"

text \<open>The job of an update is handed to \<open>EnqueueJobHandler\<close> unless that is \<open>nil\<close>.\<close>

definition notify :: "Job \<Rightarrow> 'db world \<Rightarrow> 'db world" where
  "notify job w =
     (case EnqueueJobHandler w of
        None \<Rightarrow> w
      | Some handler \<Rightarrow> w\<lparr>Queue := handler job (Queue w)\<rparr>)"

text \<open>
  \<open>UpdateSeat\<close> (lines 331 to 446). \<open>seat_code_var\<close> is \<open>mux.Vars(r)["seat_code"]\<close>, and
  \<open>decoded\<close> what decoding the body into the map gives (\<open>Inl ()\<close> for an error).
\<close>

definition UpdateSeat ::
  "'db runtime \<Rightarrow> string \<Rightarrow> unit + update_data \<Rightarrow> 'db world \<Rightarrow> response \<times> 'db world" where
  "UpdateSeat rt seat_code_var decoded w =
     (case Atoi seat_code_var of
        Inl _ \<Rightarrow> (\<lparr>status = 400, body = Text (msg_bad_code ''seat_code'')\<rparr>, w)
      | Inr seatCode \<Rightarrow>
     (case decoded of
        Inl _ \<Rightarrow> (\<lparr>status = 400, body = Text msg_bad_request_data\<rparr>, w)
      | Inr updateData0 \<Rightarrow>
     (case check_body_key (int_out_of_range rt) ''seat_code'' seatCode updateData0 of
        Inl resp \<Rightarrow> (resp, w)
      | Inr updateData \<Rightarrow>
          if length updateData = 0
          then (\<lparr>status = 400, body = Text msg_no_fields\<rparr>, w)
          else
            (let st = update_loop seat_update_allowed updateData ([], [], 1)
             in if length (fst st) = 0
                then (\<lparr>status = 400, body = Text msg_no_valid_fields\<rparr>, w)
                else
                  (let (query, args) = UpdateSeat_query seatCode st;
                       (err, db') = ExecContext rt query args (DB w);
                       w1 = w\<lparr>DB := db'\<rparr>
                   in case err of
                        Some e \<Rightarrow> (\<lparr>status = 500, body = Text e\<rparr>, w1)
                      | None \<Rightarrow>
                          (let job = \<lparr>Name = ''SeatUpdated'',
                                      Data = [(''seat_code'', VInt seatCode), (''time'', VTime (Now rt))],
                                      Priority = 0\<rparr>;
                               w2 = notify job w1
                           in case QueryRowSeat rt seat_select_query [VInt seatCode] (DB w2) of
                                Inl e \<Rightarrow> (\<lparr>status = 500, body = Text e\<rparr>, w2)
                              | Inr seat \<Rightarrow> (\<lparr>status = 200, body = JsonSeat seat\<rparr>, w2)))))))"

text \<open>\<open>UpdateRoom\<close> (room.go, lines 245 to 360).\<close>

definition UpdateRoom ::
  "'db runtime \<Rightarrow> string \<Rightarrow> unit + update_data \<Rightarrow> 'db world \<Rightarrow> response \<times> 'db world" where
  "UpdateRoom rt room_code_var decoded w =
     (case Atoi room_code_var of
        Inl _ \<Rightarrow> (\<lparr>status = 400, body = Text (msg_bad_code ''room_code'')\<rparr>, w)
      | Inr roomCode \<Rightarrow>
     (case decoded of
        Inl _ \<Rightarrow> (\<lparr>status = 400, body = Text msg_bad_request_data\<rparr>, w)
      | Inr updateData0 \<Rightarrow>
     (case check_body_key (int_out_of_range rt) ''room_code'' roomCode updateData0 of
        Inl resp \<Rightarrow> (resp, w)
      | Inr updateData \<Rightarrow>
          if length updateData = 0
          then (\<lparr>status = 400, body = Text msg_no_fields\<rparr>, w)
          else
            (let st = update_loop room_update_allowed updateData ([], [], 1)
             in if length (fst st) = 0
                then (\<lparr>status = 400, body = Text msg_no_valid_fields\<rparr>, w)
                else
                  (let (query, args) = UpdateRoom_query roomCode st;
                       (err, db') = ExecContext rt query args (DB w);
                       w1 = w\<lparr>DB := db'\<rparr>
                   in case err of
                        Some e \<Rightarrow> (\<lparr>status = 500, body = Text e\<rparr>, w1)
                      | None \<Rightarrow>
                          (let job = \<lparr>Name = ''RoomUpdated'',
                                      Data = [(''room_code'', VInt roomCode), (''time'', VTime (Now rt))],
                                      Priority = 0\<rparr>;
                               w2 = notify job w1
                           in case QueryRowRoom rt room_select_query [VInt roomCode] (DB w2) of
                                Inl e \<Rightarrow> (\<lparr>status = 500, body = Text e\<rparr>, w2)
                              | Inr room \<Rightarrow> (\<lparr>status = 200, body = JsonRoom room\<rparr>, w2)))))))"



section \<open>Example surroundings\<close>

text \<open>
  \<open>strings.TrimSpace\<close> on text whose bytes are all ASCII: the blank, tab, newline, vertical
  tab, form feed and carriage return are cut from both ends.
\<close>

definition ascii_space :: "char \<Rightarrow> bool" where
  "ascii_space c = (c \<in> set [CHR '' '', CHR 0x09, CHR 0x0A, CHR 0x0B, CHR 0x0C, CHR 0x0D])"

definition TrimSpace_ascii :: "string \<Rightarrow> string" where
  "TrimSpace_ascii s = rev (dropWhile ascii_space (rev (dropWhile ascii_space s)))"

text \<open>The zero values of the two structs.\<close>

definition seat_zero :: Seat where
  "seat_zero =
     \<lparr>AutoIncrement = 0, CompanyCode = 0, TitleBackgroundColor = [], TitleTextColor = [],
      Gender = 0, Waiting = 0, Release = 0, HideTitle = 0, TransparentBackground = 0,
      HideBorder = 0, KioskDisabled = 0, PowerControl = 0, BreakerNumber = 0,
      SeatCode = 0, SeatTitle = [], SeatBackgroundColor = [], SeatTop = 0, SeatLeft = 0,
      SeatWidth = 0, SeatHeight = 0\<rparr>"

definition room_zero :: Room where
  "room_zero =
     \<lparr>AutoIncrement = 0, CompanyCode = 0, TitleBackgroundColor = [], TitleTextColor = [],
      Gender = 0, Waiting = 0, Release = 0, HideTitle = 0, TransparentBackground = 0,
      HideBorder = 0, KioskDisabled = 0, PowerControl = 0, BreakerNumber = 0,
      RoomCode = 0, RoomTitle = [], RoomBackgroundColor = [], RoomTop = 0, RoomLeft = 0,
      RoomWidth = 0, RoomHeight = 0\<rparr>"

text \<open>
  A database that accepts every statement and keeps the list of the statements it has
  run; a query for one row finds the zero struct.
\<close>

definition recording_runtime :: "(string \<times> iface list) list runtime" where
  "recording_runtime =
     \<lparr>ExecContext = (\<lambda>query args db. (None, db @ [(query, args)])),
      QueryRowSeat = (\<lambda>query args db. Inr seat_zero),
      QueryRowRoom = (\<lambda>query args db. Inr room_zero),
      Now = 0,
      int_out_of_range = (\<lambda>v. - (2 ^ 63))\<rparr>"

text \<open>A database that cannot be reached: every statement fails with the same error.\<close>

definition failing_runtime :: "string \<Rightarrow> (string \<times> iface list) list runtime" where
  "failing_runtime e =
     \<lparr>ExecContext = (\<lambda>query args db. (Some e, db)),
      QueryRowSeat = (\<lambda>query args db. Inl e),
      QueryRowRoom = (\<lambda>query args db. Inl e),
      Now = 0,
      int_out_of_range = (\<lambda>v. - (2 ^ 63))\<rparr>"

text \<open>The state at the start of \<open>main\<close>: nothing run yet, the handler set, the queue empty.\<close>

definition world_init :: "(string \<times> iface list) list world" where
  "world_init = \<lparr>DB = [], EnqueueJobHandler = Some EnqueueJob, Queue = queue_init\<rparr>"

text \<open>A job as an update of seat 5 makes it, and a queue whose buffer is full of such jobs.\<close>

definition job_example :: Job where
  "job_example =
     \<lparr>Name = ''SeatUpdated'', Data = [(''seat_code'', VInt 5), (''time'', VTime 0)], Priority = 0\<rparr>"

definition queue_full :: queue_state where
  "queue_full = \<lparr>jobQueue = replicate 100 job_example, log_lines = []\<rparr>"

text \<open>A request with no header and no query parameter, and one with an \<open>X-Fields\<close> header.\<close>

definition request_plain :: request where
  "request_plain = \<lparr>Header = Map.empty, URL_Query = Map.empty\<rparr>"

definition request_fields :: "string \<Rightarrow> request" where
  "request_fields hdr = \<lparr>Header = [''X-Fields'' \<mapsto> [hdr]], URL_Query = Map.empty\<rparr>"

text \<open>
  The body \<open>{"seat_code": 5, "seat_title": "A1"}\<close> decoded into a \<open>Seat\<close>, and the same for
  a room: every other field has its zero value.
\<close>

definition seat_A1 :: Seat where
  "seat_A1 = seat_zero\<lparr>SeatCode := 5, SeatTitle := ''A1''\<rparr>"

definition room_R1 :: Room where
  "room_R1 = room_zero\<lparr>RoomCode := 7, RoomTitle := ''R1''\<rparr>"



text \<open>Two error texts of the database driver.\<close>

definition err_duplicate :: string where
  "err_duplicate = ''pq: duplicate key value violates unique constraint''"

definition err_refused :: string where
  "err_refused = ''dial tcp 127.0.0.1:5432: connect: connection refused''"

text \<open>Decoded bodies that set the five optional fields to their zero values.\<close>

definition seat_explicit_zero :: Seat where
  "seat_explicit_zero =
     seat_zero\<lparr>SeatCode := 6, SeatTitle := ''B2'', SeatWidth := 0, SeatHeight := 0,
               SeatBackgroundColor := [], TitleBackgroundColor := [], TitleTextColor := [],
               SeatTop := 30, SeatLeft := 40\<rparr>"

definition room_explicit_zero :: Room where
  "room_explicit_zero =
     room_zero\<lparr>RoomCode := 8, RoomTitle := ''R2'', RoomWidth := 0, RoomHeight := 0,
               RoomBackgroundColor := [], TitleBackgroundColor := [], TitleTextColor := [],
               RoomTop := 30, RoomLeft := 40\<rparr>"

(*DEFS_END*)
section \<open>Properties of the string functions\<close>


lemma Split_no_sep: "sep \<notin> set a \<Longrightarrow> Split a sep = [a]"
  by (induction a) auto



section \<open>Masking does not depend on the password\<close>





section \<open>The job queue is bounded and drops when full\<close>

lemma EnqueueJob_full:
  "jobQueue_cap \<le> length (jobQueue q) \<Longrightarrow>
   EnqueueJob job q = q\<lparr>log_lines := log_lines q @ [''Job queue full, dropping job: '' @ Name job]\<rparr>"
  by (simp add: EnqueueJob_def try_send_def)

lemma EnqueueJob_room:
  "length (jobQueue q) < jobQueue_cap \<Longrightarrow>
   EnqueueJob job q = q\<lparr>jobQueue := jobQueue q @ [job],
                        log_lines := log_lines q @ [''Job enqueued: '' @ Name job]\<rparr>"
  by (simp add: EnqueueJob_def try_send_def)

lemma queue_step_bounded:
  "length (jobQueue q) \<le> jobQueue_cap \<Longrightarrow> length (jobQueue (queue_step q e)) \<le> jobQueue_cap"
  by (cases e) (auto simp: EnqueueJob_def try_send_def worker_step_def split: list.splits)

lemma queue_run_bounded:
  "length (jobQueue q) \<le> jobQueue_cap \<Longrightarrow> length (jobQueue (queue_run evs q)) \<le> jobQueue_cap"
  unfolding queue_run_def
  by (induction evs arbitrary: q) (simp_all add: queue_step_bounded)

text \<open>
  C4. The capacity of the job queue is 100. \<open>EnqueueJob\<close> is a function of the job and
  the queue that has a result in every state, so the caller is never held up: on a full
  queue the result has the same buffer and one more log line, which says that the job is
  dropped; on a queue with room the job is appended. Hence, whatever producers and
  workers do from the empty queue on (\<open>evs\<close> is any sequence of enqueue and worker
  turns), the buffer never holds more than 100 jobs.
\<close>

theorem jobQueue_bounded_drop_when_full:
  "jobQueue_cap = 100
   \<and> (jobQueue_cap \<le> length (jobQueue q) \<longrightarrow>
        jobQueue (EnqueueJob job q) = jobQueue q
      \<and> log_lines (EnqueueJob job q) = log_lines q @ [''Job queue full, dropping job: '' @ Name job])
   \<and> (length (jobQueue q) < jobQueue_cap \<longrightarrow> jobQueue (EnqueueJob job q) = jobQueue q @ [job])
   \<and> length (jobQueue (queue_run evs queue_init)) \<le> jobQueue_cap"
proof -
  have "length (jobQueue queue_init) \<le> jobQueue_cap"
    by (simp add: queue_init_def)
  then have "length (jobQueue (queue_run evs queue_init)) \<le> jobQueue_cap"
    by (rule queue_run_bounded)
  then show ?thesis
    by (simp add: EnqueueJob_full EnqueueJob_room jobQueue_cap_def)
qed

theorem jobQueue_bounded_witness:
  "jobQueue_cap \<le> length (jobQueue queue_full)
   \<and> jobQueue (EnqueueJob job_example queue_full) = jobQueue queue_full
   \<and> log_lines (EnqueueJob job_example queue_full)
       = log_lines queue_full @ [''Job queue full, dropping job: '' @ Name job_example]
   \<and> length (jobQueue queue_init) < jobQueue_cap
   \<and> jobQueue (EnqueueJob job_example queue_init) = jobQueue queue_init @ [job_example]
   \<and> length (jobQueue (queue_run [Enqueue job_example, Work False, Enqueue job_example] queue_init))
       \<le> jobQueue_cap"
proof -
  have full: "jobQueue_cap \<le> length (jobQueue queue_full)"
    by (simp add: queue_full_def jobQueue_cap_def)
  have room: "length (jobQueue queue_init) < jobQueue_cap"
    by (simp add: queue_init_def jobQueue_cap_def)
  show ?thesis
    using full room
      jobQueue_bounded_drop_when_full
        [of queue_full job_example "[Enqueue job_example, Work False, Enqueue job_example]"]
      jobQueue_bounded_drop_when_full [of queue_init job_example "[]"]
    by blast
qed

section \<open>Field selection falls back to the whole allow-list\<close>

lemma fields_loop_filter:
  "fields_loop trim allowed requested acc
     = acc @ filter (\<lambda>f. f \<in> set allowed) (map trim requested)"
  by (induction requested arbitrary: acc) (simp_all add: Let_def)

lemma select_fields_eq:
  "select_fields trim allowed hdr =
     (if hdr = [] \<or> filter (\<lambda>f. f \<in> set allowed) (map trim (Split hdr (CHR '',''))) = []
      then allowed
      else filter (\<lambda>f. f \<in> set allowed) (map trim (Split hdr (CHR '',''))))"
  by (simp add: select_fields_def fields_loop_filter Let_def)

lemma Get_absent: "m key = None \<Longrightarrow> Get m key = []"
  by (simp add: Get_def)

text \<open>
  C5. The fields a list request selects, for seats and for rooms, with any function in the
  place of \<open>strings.TrimSpace\<close>: \<open>matching\<close> are the names of the \<open>X-Fields\<close> header, split
  at the commas and trimmed, that are in the allow-list of the resource, in the order of
  the request. When the header is absent or empty, or no name matches, the selection is
  the whole allow-list; otherwise it is exactly \<open>matching\<close>.
\<close>

theorem field_selection_falls_back:
  "(Header r ''X-Fields'' = None \<longrightarrow>
      GetSeats_fields trim r = seat_allowedFields \<and> GetRooms_fields trim r = room_allowedFields)
   \<and> GetSeats_fields trim r =
       (let hdr = Get (Header r) ''X-Fields'';
            matching = filter (\<lambda>f. f \<in> set seat_allowedFields) (map trim (Split hdr (CHR '','')))
        in if hdr = [] \<or> matching = [] then seat_allowedFields else matching)
   \<and> GetRooms_fields trim r =
       (let hdr = Get (Header r) ''X-Fields'';
            matching = filter (\<lambda>f. f \<in> set room_allowedFields) (map trim (Split hdr (CHR '','')))
        in if hdr = [] \<or> matching = [] then room_allowedFields else matching)"
  by (simp add: GetSeats_fields_def GetRooms_fields_def select_fields_eq Get_absent Let_def)

theorem field_selection_witness:
  "Header request_plain ''X-Fields'' = None
   \<and> GetSeats_fields TrimSpace_ascii request_plain = seat_allowedFields
   \<and> GetRooms_fields TrimSpace_ascii request_plain = room_allowedFields
   \<and> GetSeats_fields TrimSpace_ascii (request_fields ''price, colour'') = seat_allowedFields
   \<and> GetSeats_fields TrimSpace_ascii (request_fields ''seat_title , bogus,seat_code'')
       = [''seat_title'', ''seat_code'']
   \<and> GetRooms_fields TrimSpace_ascii (request_fields ''seat_title, room_top'') = [''room_top'']"
  using field_selection_falls_back [of request_plain TrimSpace_ascii]
    field_selection_falls_back [of "request_fields ''price, colour''" TrimSpace_ascii]
    field_selection_falls_back [of "request_fields ''seat_title , bogus,seat_code''" TrimSpace_ascii]
    field_selection_falls_back [of "request_fields ''seat_title, room_top''" TrimSpace_ascii]
  by (simp add: request_plain_def request_fields_def Get_def TrimSpace_ascii_def ascii_space_def
      seat_allowedFields_def room_allowedFields_def)

section \<open>Create: defaults and database errors\<close>

lemma seat_defaults_zero:
  "SeatWidth s = 0 \<Longrightarrow> SeatHeight s = 0 \<Longrightarrow> SeatBackgroundColor s = [] \<Longrightarrow>
   TitleBackgroundColor s = [] \<Longrightarrow> TitleTextColor s = [] \<Longrightarrow>
   seat_defaults s = s\<lparr>SeatWidth := 100, SeatHeight := 100, SeatBackgroundColor := ''#FFFFFF'',
                        TitleBackgroundColor := ''#000000'', TitleTextColor := ''#FFFFFF''\<rparr>"
  by (simp add: seat_defaults_def Let_def)

lemma room_defaults_zero:
  "RoomWidth s = 0 \<Longrightarrow> RoomHeight s = 0 \<Longrightarrow> RoomBackgroundColor s = [] \<Longrightarrow>
   TitleBackgroundColor s = [] \<Longrightarrow> TitleTextColor s = [] \<Longrightarrow>
   room_defaults s = s\<lparr>RoomWidth := 100, RoomHeight := 100, RoomBackgroundColor := ''#FFFFFF'',
                        TitleBackgroundColor := ''#000000'', TitleTextColor := ''#FFFFFF''\<rparr>"
  by (simp add: room_defaults_def Let_def)

lemma CreateSeat_ok:
  "ExecContext rt seat_insert_query (seat_insert_args (seat_defaults s)) (DB w) = (None, db') \<Longrightarrow>
   CreateSeat rt (Inr s) w = (\<lparr>status = 201, body = JsonSeat (seat_defaults s)\<rparr>, w\<lparr>DB := db'\<rparr>)"
  by (simp add: CreateSeat_def Let_def)

lemma CreateRoom_ok:
  "ExecContext rt room_insert_query (room_insert_args (room_defaults s)) (DB w) = (None, db') \<Longrightarrow>
   CreateRoom rt (Inr s) w = (\<lparr>status = 201, body = JsonRoom (room_defaults s)\<rparr>, w\<lparr>DB := db'\<rparr>)"
  by (simp add: CreateRoom_def Let_def)

text \<open>
  C6. A create request whose decoded record has the zero value in the two dimension
  fields and in the three colour fields (the body omits them), for seats and for rooms:
  the INSERT is run with width 100, height 100, title background \<open>#000000\<close>, title text
  \<open>#FFFFFF\<close> and background \<open>#FFFFFF\<close> in the places of these fields, and when it succeeds
  the response is 201 with the record that carries the same five values, the other
  fields as decoded.
\<close>

theorem create_defaults_when_omitted:
  assumes "SeatWidth s = 0" "SeatHeight s = 0" "SeatBackgroundColor s = []"
    "TitleBackgroundColor s = []" "TitleTextColor s = []"
    and "RoomWidth r = 0" "RoomHeight r = 0" "RoomBackgroundColor r = []"
    "TitleBackgroundColor r = []" "TitleTextColor r = []"
    and "ExecContext rt seat_insert_query
           [VInt (CompanyCode s), VInt (SeatCode s), VString (SeatTitle s),
            VString ''#000000'', VString ''#FFFFFF'', VString ''#FFFFFF'',
            VInt (SeatTop s), VInt (SeatLeft s), VInt 100, VInt 100,
            VInt (Gender s), VInt (Waiting s), VInt (Release s), VInt (HideTitle s),
            VInt (TransparentBackground s), VInt (HideBorder s), VInt (KioskDisabled s),
            VInt (PowerControl s), VInt (BreakerNumber s)] (DB w) = (None, db')"
    and "ExecContext rt' room_insert_query
           [VInt (CompanyCode r), VInt (RoomCode r), VString (RoomTitle r),
            VString ''#000000'', VString ''#FFFFFF'', VString ''#FFFFFF'',
            VInt (RoomTop r), VInt (RoomLeft r), VInt 100, VInt 100,
            VInt (Gender r), VInt (Waiting r), VInt (Release r), VInt (HideTitle r),
            VInt (TransparentBackground r), VInt (HideBorder r), VInt (KioskDisabled r),
            VInt (PowerControl r), VInt (BreakerNumber r)] (DB w') = (None, db'')"
  shows "CreateSeat rt (Inr s) w =
           (\<lparr>status = 201,
             body = JsonSeat (s\<lparr>SeatWidth := 100, SeatHeight := 100, SeatBackgroundColor := ''#FFFFFF'',
                                TitleBackgroundColor := ''#000000'', TitleTextColor := ''#FFFFFF''\<rparr>)\<rparr>,
            w\<lparr>DB := db'\<rparr>)
       \<and> CreateRoom rt' (Inr r) w' =
           (\<lparr>status = 201,
             body = JsonRoom (r\<lparr>RoomWidth := 100, RoomHeight := 100, RoomBackgroundColor := ''#FFFFFF'',
                                TitleBackgroundColor := ''#000000'', TitleTextColor := ''#FFFFFF''\<rparr>)\<rparr>,
            w'\<lparr>DB := db''\<rparr>)"
proof -
  have s: "seat_defaults s = s\<lparr>SeatWidth := 100, SeatHeight := 100, SeatBackgroundColor := ''#FFFFFF'',
                        TitleBackgroundColor := ''#000000'', TitleTextColor := ''#FFFFFF''\<rparr>"
    using assms(1-5) by (rule seat_defaults_zero)
  have r: "room_defaults r = r\<lparr>RoomWidth := 100, RoomHeight := 100, RoomBackgroundColor := ''#FFFFFF'',
                        TitleBackgroundColor := ''#000000'', TitleTextColor := ''#FFFFFF''\<rparr>"
    using assms(6-10) by (rule room_defaults_zero)
  have "ExecContext rt seat_insert_query (seat_insert_args (seat_defaults s)) (DB w) = (None, db')"
    using assms(11) by (simp add: s seat_insert_args_def)
  then have 1: "CreateSeat rt (Inr s) w = (\<lparr>status = 201, body = JsonSeat (seat_defaults s)\<rparr>, w\<lparr>DB := db'\<rparr>)"
    by (rule CreateSeat_ok)
  have "ExecContext rt' room_insert_query (room_insert_args (room_defaults r)) (DB w') = (None, db'')"
    using assms(12) by (simp add: r room_insert_args_def)
  then have 2: "CreateRoom rt' (Inr r) w' = (\<lparr>status = 201, body = JsonRoom (room_defaults r)\<rparr>, w'\<lparr>DB := db''\<rparr>)"
    by (rule CreateRoom_ok)
  show ?thesis using 1 2 by (simp only: s r)
qed

lemma seat_A1_zero:
  "SeatWidth seat_A1 = 0" "SeatHeight seat_A1 = 0" "SeatBackgroundColor seat_A1 = []"
  "TitleBackgroundColor seat_A1 = []" "TitleTextColor seat_A1 = []"
  by (simp_all add: seat_A1_def seat_zero_def)

lemma room_R1_zero:
  "RoomWidth room_R1 = 0" "RoomHeight room_R1 = 0" "RoomBackgroundColor room_R1 = []"
  "TitleBackgroundColor room_R1 = []" "TitleTextColor room_R1 = []"
  by (simp_all add: room_R1_def room_zero_def)

theorem create_defaults_witness:
  "SeatWidth seat_A1 = 0 \<and> SeatHeight seat_A1 = 0 \<and> SeatBackgroundColor seat_A1 = []
   \<and> TitleBackgroundColor seat_A1 = [] \<and> TitleTextColor seat_A1 = []
   \<and> RoomWidth room_R1 = 0 \<and> RoomHeight room_R1 = 0 \<and> RoomBackgroundColor room_R1 = []
   \<and> TitleBackgroundColor room_R1 = [] \<and> TitleTextColor room_R1 = []
   \<and> fst (CreateSeat recording_runtime (Inr seat_A1) world_init) =
        \<lparr>status = 201,
         body = JsonSeat (seat_A1\<lparr>SeatWidth := 100, SeatHeight := 100, SeatBackgroundColor := ''#FFFFFF'',
                                  TitleBackgroundColor := ''#000000'', TitleTextColor := ''#FFFFFF''\<rparr>)\<rparr>
   \<and> fst (CreateRoom recording_runtime (Inr room_R1) world_init) =
        \<lparr>status = 201,
         body = JsonRoom (room_R1\<lparr>RoomWidth := 100, RoomHeight := 100, RoomBackgroundColor := ''#FFFFFF'',
                                  TitleBackgroundColor := ''#000000'', TitleTextColor := ''#FFFFFF''\<rparr>)\<rparr>"
proof -
  have e1: "ExecContext recording_runtime seat_insert_query args (DB world_init)
              = (None, DB world_init @ [(seat_insert_query, args)])" for args
    by (simp add: recording_runtime_def)
  have e2: "ExecContext recording_runtime room_insert_query args (DB world_init)
              = (None, DB world_init @ [(room_insert_query, args)])" for args
    by (simp add: recording_runtime_def)
  note t = create_defaults_when_omitted [OF seat_A1_zero room_R1_zero e1 e2]
  show ?thesis
    using seat_A1_zero room_R1_zero t by simp
qed


lemma HasPrefix_iff: "HasPrefix s p \<longleftrightarrow> (\<exists>b. s = p @ b)"
  unfolding HasPrefix_def
  by (metis append_eq_conv_conj append_take_drop_id)

lemma Contains_iff: "Contains s sub \<longleftrightarrow> (\<exists>a b. s = a @ sub @ b)"
proof (induction s)
  case Nil
  then show ?case by auto
next
  case (Cons c cs)
  show ?case
  proof
    assume "Contains (c # cs) sub"
    then consider "HasPrefix (c # cs) sub" | "Contains cs sub" by auto
    then show "\<exists>a b. c # cs = a @ sub @ b"
    proof cases
      case 1
      then obtain b where "c # cs = sub @ b" by (auto simp: HasPrefix_iff)
      then have "c # cs = [] @ sub @ b" by simp
      then show ?thesis by blast
    next
      case 2
      then obtain a b where "cs = a @ sub @ b" using Cons.IH by blast
      then have "c # cs = (c # a) @ sub @ b" by simp
      then show ?thesis by blast
    qed
  next
    assume "\<exists>a b. c # cs = a @ sub @ b"
    then obtain a b where ab: "c # cs = a @ sub @ b" by blast
    show "Contains (c # cs) sub"
    proof (cases a)
      case Nil
      with ab have "HasPrefix (c # cs) sub" by (auto simp: HasPrefix_iff)
      then show ?thesis by simp
    next
      case (Cons x a')
      with ab have "cs = a' @ sub @ b" by simp
      then have "Contains cs sub" using Cons.IH by blast
      then show ?thesis by simp
    qed
  qed
qed

lemma CreateSeat_err:
  "ExecContext rt seat_insert_query (seat_insert_args (seat_defaults s)) (DB w) = (Some e, db') \<Longrightarrow>
   CreateSeat rt (Inr s) w =
     (if Contains e ''duplicate key'' then \<lparr>status = 400, body = Text msg_seat_exists\<rparr>
      else \<lparr>status = 500, body = Text e\<rparr>, w\<lparr>DB := db'\<rparr>)"
  by (simp add: CreateSeat_def Let_def)

lemma CreateRoom_err:
  "ExecContext rt room_insert_query (room_insert_args (room_defaults s)) (DB w) = (Some e, db') \<Longrightarrow>
   CreateRoom rt (Inr s) w =
     (if Contains e ''duplicate key'' then \<lparr>status = 400, body = Text msg_room_exists\<rparr>
      else \<lparr>status = 500, body = Text e\<rparr>, w\<lparr>DB := db'\<rparr>)"
  by (simp add: CreateRoom_def Let_def)

text \<open>
  C7. A create request whose INSERT fails with the error text \<open>e\<close>, for seats and for
  rooms: the response is 400 with the "already exists" message exactly when \<open>e\<close> has
  \<open>duplicate key\<close> somewhere in it, and 500 with the text \<open>e\<close> itself for every other
  error.
\<close>

theorem create_insert_error_status:
  assumes "ExecContext rt seat_insert_query (seat_insert_args (seat_defaults s)) (DB w) = (Some e, db')"
    and "ExecContext rt' room_insert_query (room_insert_args (room_defaults r)) (DB w') = (Some e', db'')"
  shows "fst (CreateSeat rt (Inr s) w) =
           (if \<exists>a b. e = a @ ''duplicate key'' @ b
            then \<lparr>status = 400, body = Text msg_seat_exists\<rparr>
            else \<lparr>status = 500, body = Text e\<rparr>)
       \<and> fst (CreateRoom rt' (Inr r) w') =
           (if \<exists>a b. e' = a @ ''duplicate key'' @ b
            then \<lparr>status = 400, body = Text msg_room_exists\<rparr>
            else \<lparr>status = 500, body = Text e'\<rparr>)"
  using CreateSeat_err [OF assms(1)] CreateRoom_err [OF assms(2)]
  by (simp add: Contains_iff)

lemma err_duplicate_has: "\<exists>a b. err_duplicate = a @ ''duplicate key'' @ b"
proof -
  have "err_duplicate = ''pq: '' @ ''duplicate key'' @ '' value violates unique constraint''"
    by (simp add: err_duplicate_def)
  then show ?thesis by blast
qed

lemma err_refused_has_not: "\<not> (\<exists>a b. err_refused = a @ ''duplicate key'' @ b)"
  unfolding Contains_iff [symmetric]
  by (simp add: err_refused_def HasPrefix_def)

theorem create_insert_error_witness:
  "fst (CreateSeat (failing_runtime err_duplicate) (Inr seat_A1) world_init)
     = \<lparr>status = 400, body = Text msg_seat_exists\<rparr>
   \<and> fst (CreateRoom (failing_runtime err_refused) (Inr room_R1) world_init)
     = \<lparr>status = 500, body = Text err_refused\<rparr>"
proof -
  have e: "ExecContext (failing_runtime x) q args (DB world_init) = (Some x, DB world_init)"
    for x q args
    by (simp add: failing_runtime_def)
  show ?thesis
    using create_insert_error_status [OF e e, of err_duplicate seat_A1 err_refused room_R1]
    by (simp only: err_duplicate_has err_refused_has_not if_True if_False)
qed


lemma seat_defaults_fields:
  "SeatWidth (seat_defaults s) = (if SeatWidth s = 0 then 100 else SeatWidth s)"
  "SeatHeight (seat_defaults s) = (if SeatHeight s = 0 then 100 else SeatHeight s)"
  "SeatBackgroundColor (seat_defaults s) = (if SeatBackgroundColor s = [] then ''#FFFFFF'' else SeatBackgroundColor s)"
  "TitleBackgroundColor (seat_defaults s) = (if TitleBackgroundColor s = [] then ''#000000'' else TitleBackgroundColor s)"
  "TitleTextColor (seat_defaults s) = (if TitleTextColor s = [] then ''#FFFFFF'' else TitleTextColor s)"
  by (simp_all add: seat_defaults_def Let_def)

lemma room_defaults_fields:
  "RoomWidth (room_defaults s) = (if RoomWidth s = 0 then 100 else RoomWidth s)"
  "RoomHeight (room_defaults s) = (if RoomHeight s = 0 then 100 else RoomHeight s)"
  "RoomBackgroundColor (room_defaults s) = (if RoomBackgroundColor s = [] then ''#FFFFFF'' else RoomBackgroundColor s)"
  "TitleBackgroundColor (room_defaults s) = (if TitleBackgroundColor s = [] then ''#000000'' else TitleBackgroundColor s)"
  "TitleTextColor (room_defaults s) = (if TitleTextColor s = [] then ''#FFFFFF'' else TitleTextColor s)"
  by (simp_all add: room_defaults_def Let_def)

lemma seat_insert_args_nth:
  "seat_insert_args s ! 8 = VInt (SeatWidth s)"
  "seat_insert_args s ! 9 = VInt (SeatHeight s)"
  "seat_insert_args s ! 5 = VString (SeatBackgroundColor s)"
  "seat_insert_args s ! 3 = VString (TitleBackgroundColor s)"
  "seat_insert_args s ! 4 = VString (TitleTextColor s)"
  by (simp_all add: seat_insert_args_def)

lemma room_insert_args_nth:
  "room_insert_args s ! 8 = VInt (RoomWidth s)"
  "room_insert_args s ! 9 = VInt (RoomHeight s)"
  "room_insert_args s ! 5 = VString (RoomBackgroundColor s)"
  "room_insert_args s ! 3 = VString (TitleBackgroundColor s)"
  "room_insert_args s ! 4 = VString (TitleTextColor s)"
  by (simp_all add: room_insert_args_def)

text \<open>
  C10. Create sees only the decoded record, in which a field the body sets to zero and a
  field the body omits are the same. For seats and for rooms, whatever the decoded record
  is: when the INSERT succeeds the response is 201 with the record after the defaults,
  which is also the record whose fields are the arguments of the INSERT, and in that
  record a width or height that was 0 is 100, a background colour that was empty is
  \<open>#FFFFFF\<close>, a title background that was empty is \<open>#000000\<close> and a title text colour
  that was empty is \<open>#FFFFFF\<close>.
\<close>

theorem create_zero_values_replaced:
  assumes "ExecContext rt seat_insert_query (seat_insert_args (seat_defaults s)) (DB w) = (None, db')"
    and "ExecContext rt' room_insert_query (room_insert_args (room_defaults r)) (DB w') = (None, db'')"
  shows "CreateSeat rt (Inr s) w = (\<lparr>status = 201, body = JsonSeat (seat_defaults s)\<rparr>, w\<lparr>DB := db'\<rparr>)
       \<and> (SeatWidth s = 0 \<longrightarrow>
            SeatWidth (seat_defaults s) = 100 \<and> seat_insert_args (seat_defaults s) ! 8 = VInt 100)
       \<and> (SeatHeight s = 0 \<longrightarrow>
            SeatHeight (seat_defaults s) = 100 \<and> seat_insert_args (seat_defaults s) ! 9 = VInt 100)
       \<and> (SeatBackgroundColor s = [] \<longrightarrow>
            SeatBackgroundColor (seat_defaults s) = ''#FFFFFF''
          \<and> seat_insert_args (seat_defaults s) ! 5 = VString ''#FFFFFF'')
       \<and> (TitleBackgroundColor s = [] \<longrightarrow>
            TitleBackgroundColor (seat_defaults s) = ''#000000''
          \<and> seat_insert_args (seat_defaults s) ! 3 = VString ''#000000'')
       \<and> (TitleTextColor s = [] \<longrightarrow>
            TitleTextColor (seat_defaults s) = ''#FFFFFF''
          \<and> seat_insert_args (seat_defaults s) ! 4 = VString ''#FFFFFF'')
       \<and> CreateRoom rt' (Inr r) w' = (\<lparr>status = 201, body = JsonRoom (room_defaults r)\<rparr>, w'\<lparr>DB := db''\<rparr>)
       \<and> (RoomWidth r = 0 \<longrightarrow>
            RoomWidth (room_defaults r) = 100 \<and> room_insert_args (room_defaults r) ! 8 = VInt 100)
       \<and> (RoomHeight r = 0 \<longrightarrow>
            RoomHeight (room_defaults r) = 100 \<and> room_insert_args (room_defaults r) ! 9 = VInt 100)
       \<and> (RoomBackgroundColor r = [] \<longrightarrow>
            RoomBackgroundColor (room_defaults r) = ''#FFFFFF''
          \<and> room_insert_args (room_defaults r) ! 5 = VString ''#FFFFFF'')
       \<and> (TitleBackgroundColor r = [] \<longrightarrow>
            TitleBackgroundColor (room_defaults r) = ''#000000''
          \<and> room_insert_args (room_defaults r) ! 3 = VString ''#000000'')
       \<and> (TitleTextColor r = [] \<longrightarrow>
            TitleTextColor (room_defaults r) = ''#FFFFFF''
          \<and> room_insert_args (room_defaults r) ! 4 = VString ''#FFFFFF'')"
  using CreateSeat_ok [OF assms(1)] CreateRoom_ok [OF assms(2)]
  by (simp add: seat_insert_args_nth room_insert_args_nth seat_defaults_fields room_defaults_fields)

lemma seat_explicit_zero_fields:
  "SeatWidth seat_explicit_zero = 0" "SeatHeight seat_explicit_zero = 0"
  "SeatBackgroundColor seat_explicit_zero = []"
  "TitleBackgroundColor seat_explicit_zero = []" "TitleTextColor seat_explicit_zero = []"
  by (simp_all add: seat_explicit_zero_def seat_zero_def)

lemma room_explicit_zero_fields:
  "RoomWidth room_explicit_zero = 0" "RoomHeight room_explicit_zero = 0"
  "RoomBackgroundColor room_explicit_zero = []"
  "TitleBackgroundColor room_explicit_zero = []" "TitleTextColor room_explicit_zero = []"
  by (simp_all add: room_explicit_zero_def room_zero_def)

theorem create_zero_values_witness:
  "SeatWidth seat_explicit_zero = 0 \<and> SeatHeight seat_explicit_zero = 0
   \<and> SeatBackgroundColor seat_explicit_zero = [] \<and> TitleBackgroundColor seat_explicit_zero = []
   \<and> TitleTextColor seat_explicit_zero = []
   \<and> RoomWidth room_explicit_zero = 0 \<and> RoomHeight room_explicit_zero = 0
   \<and> RoomBackgroundColor room_explicit_zero = [] \<and> TitleBackgroundColor room_explicit_zero = []
   \<and> TitleTextColor room_explicit_zero = []
   \<and> fst (CreateSeat recording_runtime (Inr seat_explicit_zero) world_init)
       = \<lparr>status = 201, body = JsonSeat (seat_defaults seat_explicit_zero)\<rparr>
   \<and> SeatWidth (seat_defaults seat_explicit_zero) = 100
   \<and> SeatHeight (seat_defaults seat_explicit_zero) = 100
   \<and> SeatBackgroundColor (seat_defaults seat_explicit_zero) = ''#FFFFFF''
   \<and> TitleBackgroundColor (seat_defaults seat_explicit_zero) = ''#000000''
   \<and> TitleTextColor (seat_defaults seat_explicit_zero) = ''#FFFFFF''
   \<and> fst (CreateRoom recording_runtime (Inr room_explicit_zero) world_init)
       = \<lparr>status = 201, body = JsonRoom (room_defaults room_explicit_zero)\<rparr>
   \<and> RoomWidth (room_defaults room_explicit_zero) = 100
   \<and> RoomHeight (room_defaults room_explicit_zero) = 100
   \<and> RoomBackgroundColor (room_defaults room_explicit_zero) = ''#FFFFFF''
   \<and> TitleBackgroundColor (room_defaults room_explicit_zero) = ''#000000''
   \<and> TitleTextColor (room_defaults room_explicit_zero) = ''#FFFFFF''"
proof -
  have e1: "ExecContext recording_runtime seat_insert_query args (DB world_init)
              = (None, DB world_init @ [(seat_insert_query, args)])" for args
    by (simp add: recording_runtime_def)
  have e2: "ExecContext recording_runtime room_insert_query args (DB world_init)
              = (None, DB world_init @ [(room_insert_query, args)])" for args
    by (simp add: recording_runtime_def)
  note t = create_zero_values_replaced [OF e1 e2, of seat_explicit_zero room_explicit_zero]
  show ?thesis
    using seat_explicit_zero_fields room_explicit_zero_fields t by simp
qed

section \<open>Delete makes no existence check\<close>










end
